theory Spec2Isabelle
  imports Complex_Main
begin

section \<open>Parametric visual stimuli: enumeration engine and synthesis formulas\<close>

text \<open>
  A shallow embedding of \<^verbatim>\<open>insilico_stimuli/stimuli.py\<close>.  Python floats and numpy
  float arrays are idealised as exact reals; a two-dimensional array of shape
  \<open>(height, width)\<close> is a list of \<open>height\<close> rows of \<open>width\<close> pixels.  Every
  \<^verbatim>\<open>raise\<close> of the module, and every exception of a numpy call that the module relies on,
  is a value of the type \<open>error\<close>.
\<close>

subsection \<open>Values and errors\<close>

type_synonym image = "real list list"

text \<open>
  A parameter value is a location \<open>[x, y]\<close> or a number; the value lists of one synthesizer
  mix the two, as the Python lists do.
\<close>

datatype pval = Location "int \<times> int" | Number real

datatype error =
    IndexOutOfBounds        \<comment> \<open>ValueError of \<^verbatim>\<open>np.unravel_index\<close>: index out of bounds\<close>
  | SizeSurroundTooSmall    \<comment> \<open>ValueError("size\_surround must be larger than 1.")\<close>
  | SizeCenterTooLarge      \<comment> \<open>ValueError("size\_center cannot be larger than size\_surround")\<close>
  | ZeroSizeReduction       \<comment> \<open>ValueError of \<^verbatim>\<open>ndarray.min\<close> on an array without elements\<close>
  | ZeroDivisionError       \<comment> \<open>float division by zero in \<^verbatim>\<open>params[2] /= params[1]\<close>\<close>
  | ZeroStep                \<comment> \<open>\<^verbatim>\<open>np.arange\<close> refuses a step of zero\<close>
  | TypeError               \<comment> \<open>a keyword argument is missing or has the wrong kind of value\<close>

type_synonym 'v descriptor = "'v list \<times> string"

text \<open>Sequencing of computations that may raise.\<close>

definition bind :: "error + 'a \<Rightarrow> ('a \<Rightarrow> error + 'b) \<Rightarrow> error + 'b" where
  "bind m f = (case m of Inl e \<Rightarrow> Inl e | Inr x \<Rightarrow> f x)"


subsection \<open>StimuliSet: the enumeration engine\<close>

text \<open>\<^verbatim>\<open>num_params\<close>: \<^verbatim>\<open>[len(p[0]) for p in self.params()]\<close>.\<close>

definition num_params :: "'v descriptor list \<Rightarrow> nat list" where
  "num_params ps = map (\<lambda>p. length (fst p)) ps"

text \<open>
  \<^verbatim>\<open>np.unravel_index(idx, shape)\<close> in C order.  numpy rejects an index below zero or not
  below the product of the shape; otherwise it walks the shape from its last entry to its
  first, each time taking the remainder by the entry as that coordinate and carrying the
  quotient on.  \<open>unravel_loop\<close> is that walk, over the reversed shape.
\<close>

fun unravel_loop :: "nat \<Rightarrow> nat list \<Rightarrow> nat list" where
  "unravel_loop val [] = []"
| "unravel_loop val (d # ds) = (val mod d) # unravel_loop (val div d) ds"

definition unravel_index :: "int \<Rightarrow> nat list \<Rightarrow> error + nat list" where
  "unravel_index idx shape =
     (if idx < 0 \<or> int (prod_list shape) \<le> idx then Inl IndexOutOfBounds
      else Inr (rev (unravel_loop (nat idx) (rev shape))))"

text \<open>\<^verbatim>\<open>[p[0][c[i]] for i, p in enumerate(self.params())]\<close>\<close>

definition select_params :: "'v descriptor list \<Rightarrow> nat list \<Rightarrow> 'v list" where
  "select_params ps c = map (\<lambda>(i, p). fst p ! (c ! i)) (enumerate 0 ps)"

definition params_from_idx :: "'v descriptor list \<Rightarrow> int \<Rightarrow> error + 'v list" where
  "params_from_idx ps idx =
     bind (unravel_index idx (num_params ps)) (\<lambda>c. Inr (select_params ps c))"

text \<open>
  \<^verbatim>\<open>GaborSet.params_from_idx\<close> (inherited by \<^verbatim>\<open>PlaidsSet\<close>): the same resolution, then
  \<^verbatim>\<open>params[2] /= params[1]\<close> when \<^verbatim>\<open>relative_sf\<close> is set.  Entries 1 and 2 are the size and
  the spatial frequency; dividing a Python float by zero raises.
\<close>

definition GaborSet_params_from_idx :: "pval descriptor list \<Rightarrow> bool \<Rightarrow> int \<Rightarrow> error + pval list" where
  "GaborSet_params_from_idx ps relative_sf idx =
     bind (unravel_index idx (num_params ps)) (\<lambda>c.
       let params = select_params ps c in
       if relative_sf then
         (case (params ! 2, params ! 1) of
            (Number sf, Number sz) \<Rightarrow>
              if sz = 0 then Inl ZeroDivisionError else Inr (params[2 := Number (sf / sz)])
          | _ \<Rightarrow> Inl TypeError)
       else Inr params)"

text \<open>
  \<^verbatim>\<open>params_dict_from_idx\<close>: \<^verbatim>\<open>{p[1]: params[i] for i, p in enumerate(self.params())}\<close>,
  where \<^verbatim>\<open>self.params_from_idx\<close> is the method of the concrete class (the first argument).
  The dictionary is kept as its entries in insertion order; a later entry replaces an
  earlier one of the same name, which is how \<open>lookup\<close> reads it.
\<close>

type_synonym 'v dict = "(string \<times> 'v) list"

definition lookup :: "'v dict \<Rightarrow> string \<Rightarrow> 'v option" where
  "lookup d name = map_of (rev d) name"

definition params_dict_from_idx ::
  "(int \<Rightarrow> error + 'v list) \<Rightarrow> 'v descriptor list \<Rightarrow> int \<Rightarrow> error + 'v dict" where
  "params_dict_from_idx pfi ps idx =
     bind (pfi idx) (\<lambda>params. Inr (map (\<lambda>(i, p). (snd p, params ! i)) (enumerate 0 ps)))"

text \<open>\<^verbatim>\<open>stimulus_from_idx\<close>: \<^verbatim>\<open>self.stimulus(**self.params_dict_from_idx(idx))\<close>; the last
  argument is the \<^verbatim>\<open>stimulus\<close> method of the concrete class, taking its keyword arguments.\<close>

definition stimulus_from_idx ::
  "(int \<Rightarrow> error + 'v list) \<Rightarrow> 'v descriptor list \<Rightarrow> ('v dict \<Rightarrow> error + image)
     \<Rightarrow> int \<Rightarrow> error + image" where
  "stimulus_from_idx pfi ps stimulus idx = bind (params_dict_from_idx pfi ps idx) stimulus"






text \<open>The shape of an array: \<open>(height, width)\<close> of one stimulus, and
  \<open>(chunkLength, height, width)\<close> of a stacked batch.\<close>

definition has_shape :: "image \<Rightarrow> nat \<times> nat \<Rightarrow> bool" where
  "has_shape img hw = (length img = fst hw \<and> list_all (\<lambda>row. length row = snd hw) img)"


subsection \<open>Keyword arguments\<close>

definition kw_number :: "pval dict \<Rightarrow> string \<Rightarrow> error + real" where
  "kw_number kwargs name =
     (case lookup kwargs name of Some (Number r) \<Rightarrow> Inr r | _ \<Rightarrow> Inl TypeError)"

definition kw_location :: "pval dict \<Rightarrow> string \<Rightarrow> error + int \<times> int" where
  "kw_location kwargs name =
     (case lookup kwargs name of Some (Location l) \<Rightarrow> Inr l | _ \<Rightarrow> Inl TypeError)"

subsection \<open>The pixel grid and the photometric scaling\<close>

text \<open>
  \<^verbatim>\<open>np.meshgrid(np.arange(w) - location[0], np.arange(h) - location[1])\<close>: row \<open>i\<close>, column
  \<open>j\<close> holds \<open>(j - location[0], i - location[1])\<close>.  \<open>canvas_size\<close> is \<open>[width, height]\<close>.
\<close>

definition meshgrid :: "nat \<times> nat \<Rightarrow> int \<times> int \<Rightarrow> (real \<times> real) list list" where
  "meshgrid canvas_size location =
     map (\<lambda>i. map (\<lambda>j. (of_int (int j - fst location), of_int (int i - snd location)))
                 [0..<fst canvas_size])
         [0..<snd canvas_size]"

text \<open>The rotation matrix \<open>R\<close> applied to one coordinate pair.\<close>

definition rotate :: "real \<Rightarrow> real \<times> real \<Rightarrow> real \<times> real" where
  "rotate orientation xy =
     (cos orientation * fst xy - sin orientation * snd xy,
      sin orientation * fst xy + cos orientation * snd xy)"

text \<open>\<^verbatim>\<open>contrast * min(abs(pixel_boundaries[0] - grey_level), abs(pixel_boundaries[1] - grey_level))\<close>\<close>

definition amplitude :: "real \<times> real \<Rightarrow> real \<Rightarrow> real \<Rightarrow> real" where
  "amplitude pixel_boundaries grey_level contrast =
     contrast * min \<bar>fst pixel_boundaries - grey_level\<bar> \<bar>snd pixel_boundaries - grey_level\<bar>"

subsection \<open>GaborSet.stimulus\<close>

definition envelope :: "real \<Rightarrow> real \<Rightarrow> real \<times> real \<Rightarrow> real" where
  "envelope size' gamma xy = exp (- ((fst xy)\<^sup>2 + gamma * (snd xy)\<^sup>2) / (2 * (size' / 4)\<^sup>2))"

definition grating :: "real \<Rightarrow> real \<Rightarrow> real \<times> real \<Rightarrow> real" where
  "grating spatial_frequency phase xy = cos (spatial_frequency * fst xy * (2 * pi) + phase)"

definition gabor_no_contrast :: "real \<Rightarrow> real \<Rightarrow> real \<Rightarrow> real \<Rightarrow> real \<times> real \<Rightarrow> real" where
  "gabor_no_contrast size' spatial_frequency phase gamma xy =
     envelope size' gamma xy * grating spatial_frequency phase xy"

text \<open>The first three arguments are the fields of \<^verbatim>\<open>self\<close> that the method reads.\<close>

definition GaborSet_stimulus ::
  "nat \<times> nat \<Rightarrow> real \<times> real \<Rightarrow> real \<Rightarrow> int \<times> int \<Rightarrow> real \<Rightarrow> real \<Rightarrow> real \<Rightarrow> real \<Rightarrow> real \<Rightarrow> real
     \<Rightarrow> image" where
  "GaborSet_stimulus canvas_size pixel_boundaries grey_level
       location size' spatial_frequency contrast orientation phase gamma =
     map (map (\<lambda>xy0.
            amplitude pixel_boundaries grey_level contrast
              * gabor_no_contrast size' spatial_frequency phase gamma (rotate orientation xy0)
            + grey_level))
         (meshgrid canvas_size location)"

subsection \<open>PlaidsSet.stimulus\<close>

text \<open>The sum of two arrays of one shape.\<close>

definition add_images :: "image \<Rightarrow> image \<Rightarrow> image" where
  "add_images a b = map2 (map2 (+)) a b"

definition PlaidsSet_stimulus ::
  "nat \<times> nat \<Rightarrow> real \<times> real \<Rightarrow> real \<Rightarrow> int \<times> int \<Rightarrow> real \<Rightarrow> real \<Rightarrow> real \<Rightarrow> real \<Rightarrow> real \<Rightarrow> real
     \<Rightarrow> real \<Rightarrow> image" where
  "PlaidsSet_stimulus canvas_size pixel_boundaries grey_level
       location size' spatial_frequency orientation phase gamma
       contrast_preferred contrast_orthogonal =
     (let gabor_preferred =
            GaborSet_stimulus canvas_size pixel_boundaries grey_level
              location size' spatial_frequency contrast_preferred orientation phase gamma;
          gabor_orthogonal =
            GaborSet_stimulus canvas_size pixel_boundaries grey_level
              location size' spatial_frequency contrast_orthogonal (orientation + pi / 2)
              phase gamma
      in add_images gabor_preferred gabor_orthogonal)"

text \<open>
  The specification's reading of a plaid, for comparison with the method: the array whose
  pixel in row \<open>i\<close>, column \<open>j\<close> is the sum of the pixels \<open>(i, j)\<close> of two Gabor stimuli
  computed independently, one with \<open>orientation\<close> and \<open>contrast_preferred\<close>, one with
  \<open>orientation + \<pi>/2\<close> and \<open>contrast_orthogonal\<close>, all other parameters shared.
\<close>

definition plaid_spec ::
  "nat \<times> nat \<Rightarrow> real \<times> real \<Rightarrow> real \<Rightarrow> int \<times> int \<Rightarrow> real \<Rightarrow> real \<Rightarrow> real \<Rightarrow> real \<Rightarrow> real \<Rightarrow> real
     \<Rightarrow> real \<Rightarrow> image" where
  "plaid_spec canvas_size pixel_boundaries grey_level
       location size' spatial_frequency orientation phase gamma
       contrast_preferred contrast_orthogonal =
     map (\<lambda>i. map (\<lambda>j.
            GaborSet_stimulus canvas_size pixel_boundaries grey_level
              location size' spatial_frequency contrast_preferred orientation phase gamma
              ! i ! j
            + GaborSet_stimulus canvas_size pixel_boundaries grey_level
                location size' spatial_frequency contrast_orthogonal (orientation + pi / 2)
                phase gamma
              ! i ! j)
          [0..<fst canvas_size])
       [0..<snd canvas_size]"

subsection \<open>DiffOfGaussians.stimulus\<close>

text \<open>
  \<^verbatim>\<open>gaussian_density\<close> at one evaluation point.  The method flattens the grid, evaluates
  all points and reshapes to \<open>(height, width)\<close>; the model keeps the rows.
\<close>

definition gaussian_density :: "real \<times> real \<Rightarrow> int \<times> int \<Rightarrow> real \<Rightarrow> real" where
  "gaussian_density coords mean scale =
     (let r2 = (fst coords - of_int (fst mean))\<^sup>2 + (snd coords - of_int (snd mean))\<^sup>2
      in exp (- r2 / (2 * scale\<^sup>2)))"

definition DiffOfGaussians_stimulus ::
  "nat \<times> nat \<Rightarrow> real \<times> real \<Rightarrow> real \<Rightarrow> int \<times> int \<Rightarrow> real \<Rightarrow> real \<Rightarrow> real \<Rightarrow> real
     \<Rightarrow> error + image" where
  "DiffOfGaussians_stimulus canvas_size pixel_boundaries grey_level
       location size' size_scale_surround contrast contrast_scale_surround =
     (if size_scale_surround \<le> 1 then Inl SizeSurroundTooSmall
      else
        let center_surround =
              map (map (\<lambda>c. gaussian_density c location size'
                            - contrast_scale_surround
                              * gaussian_density c location (size_scale_surround * size')))
                  (meshgrid canvas_size (0, 0));
            vals = concat center_surround
        in if vals = [] then Inl ZeroSizeReduction
           else
             let min_val = Min (set vals);
                 max_val = Max (set vals);
                 amplitude_current = max \<bar>min_val\<bar> \<bar>max_val\<bar>;
                 amplitude_required = amplitude pixel_boundaries grey_level contrast;
                 contrast_scaling = amplitude_required / amplitude_current
             in Inr (map (map (\<lambda>v. contrast_scaling * v + grey_level)) center_surround))"

subsection \<open>CenterSurround.stimulus\<close>

definition norm_xy :: "real \<times> real \<Rightarrow> real" where
  "norm_xy xy = sqrt ((fst xy)\<^sup>2 + (snd xy)\<^sup>2)"

text \<open>The two masks at the grid point \<open>xy0\<close>, each in its own rotated frame.\<close>

definition envelope_center :: "real \<Rightarrow> real \<Rightarrow> real \<Rightarrow> real \<times> real \<Rightarrow> bool" where
  "envelope_center size_total size_center orientation_center xy0 =
     (norm_xy (rotate orientation_center xy0) \<le> size_center * size_total)"

definition envelope_surround :: "real \<Rightarrow> real \<Rightarrow> real \<Rightarrow> real \<times> real \<Rightarrow> bool" where
  "envelope_surround size_total size_surround orientation_surround xy0 =
     (norm_xy (rotate orientation_surround xy0) > size_surround * size_total
      \<and> norm_xy (rotate orientation_surround xy0) \<le> size_total)"

definition CenterSurround_pixel ::
  "real \<times> real \<Rightarrow> real \<Rightarrow> real \<Rightarrow> real \<Rightarrow> real \<Rightarrow> real \<Rightarrow> real \<Rightarrow> real \<Rightarrow> real \<Rightarrow> real \<Rightarrow> real
     \<Rightarrow> real \<Rightarrow> real \<times> real \<Rightarrow> real" where
  "CenterSurround_pixel pixel_boundaries grey_level
       size_total size_center size_surround contrast_center contrast_surround
       orientation_center orientation_surround spatial_frequency phase_center phase_surround
       xy0 =
     (let grating_center =
            grating spatial_frequency phase_center (rotate orientation_center xy0);
          grating_surround =
            grating spatial_frequency phase_surround (rotate orientation_surround xy0);
          amplitude_center = amplitude pixel_boundaries grey_level contrast_center;
          amplitude_surround = amplitude pixel_boundaries grey_level contrast_surround;
          grating_center_contrast = amplitude_center * grating_center;
          grating_surround_contrast = amplitude_surround * grating_surround
      in of_bool (envelope_center size_total size_center orientation_center xy0)
           * grating_center_contrast
         + of_bool (envelope_surround size_total size_surround orientation_surround xy0)
           * grating_surround_contrast)"

definition CenterSurround_stimulus ::
  "nat \<times> nat \<Rightarrow> real \<times> real \<Rightarrow> real \<Rightarrow> int \<times> int \<Rightarrow> real \<Rightarrow> real \<Rightarrow> real \<Rightarrow> real \<Rightarrow> real \<Rightarrow> real
     \<Rightarrow> real \<Rightarrow> real \<Rightarrow> real \<Rightarrow> real \<Rightarrow> error + image" where
  "CenterSurround_stimulus canvas_size pixel_boundaries grey_level
       location size_total size_center size_surround contrast_center contrast_surround
       orientation_center orientation_surround spatial_frequency phase_center phase_surround =
     (if size_center > size_surround then Inl SizeCenterTooLarge
      else Inr (map (map (CenterSurround_pixel pixel_boundaries grey_level
                            size_total size_center size_surround
                            contrast_center contrast_surround
                            orientation_center orientation_surround
                            spatial_frequency phase_center phase_surround))
                    (meshgrid canvas_size location)))"

subsection \<open>The four synthesizers as objects\<close>

text \<open>
  A record holds the fields of a constructed instance.  \<open>params\<close> lists the value lists in
  the order of the class; each \<open>stimulus_kw\<close> binds the keyword arguments of the class's
  \<^verbatim>\<open>stimulus\<close> from a dictionary.  \<^verbatim>\<open>CenterSurround.stimulus\<close> takes no \<^verbatim>\<open>**kwargs\<close>, so it
  refuses a name it does not know.
\<close>

record GaborSet =
  gab_canvas_size :: "nat \<times> nat"
  gab_locations :: "(int \<times> int) list"
  gab_sizes :: "real list"
  gab_spatial_frequencies :: "real list"
  gab_contrasts :: "real list"
  gab_orientations :: "real list"
  gab_phases :: "real list"
  gab_gammas :: "real list"
  gab_grey_level :: real
  gab_pixel_boundaries :: "real \<times> real"
  gab_relative_sf :: bool

definition GaborSet_params :: "GaborSet \<Rightarrow> pval descriptor list" where
  "GaborSet_params s =
     [(map Location (gab_locations s), ''location''),
      (map Number (gab_sizes s), ''size''),
      (map Number (gab_spatial_frequencies s), ''spatial_frequency''),
      (map Number (gab_contrasts s), ''contrast''),
      (map Number (gab_orientations s), ''orientation''),
      (map Number (gab_phases s), ''phase''),
      (map Number (gab_gammas s), ''gamma'')]"







record DiffOfGaussians =
  dog_canvas_size :: "nat \<times> nat"
  dog_locations :: "(int \<times> int) list"
  dog_sizes :: "real list"
  dog_sizes_scale_surround :: "real list"
  dog_contrasts :: "real list"
  dog_contrasts_scale_surround :: "real list"
  dog_grey_level :: real
  dog_pixel_boundaries :: "real \<times> real"

definition DiffOfGaussians_params :: "DiffOfGaussians \<Rightarrow> pval descriptor list" where
  "DiffOfGaussians_params s =
     [(map Location (dog_locations s), ''location''),
      (map Number (dog_sizes s), ''size''),
      (map Number (dog_sizes_scale_surround s), ''size_scale_surround''),
      (map Number (dog_contrasts s), ''contrast''),
      (map Number (dog_contrasts_scale_surround s), ''contrast_scale_surround'')]"

definition DiffOfGaussians_stimulus_kw :: "DiffOfGaussians \<Rightarrow> pval dict \<Rightarrow> error + image" where
  "DiffOfGaussians_stimulus_kw s kwargs =
     bind (kw_location kwargs ''location'') (\<lambda>location.
     bind (kw_number kwargs ''size'') (\<lambda>size'.
     bind (kw_number kwargs ''size_scale_surround'') (\<lambda>size_scale_surround.
     bind (kw_number kwargs ''contrast'') (\<lambda>contrast.
     bind (kw_number kwargs ''contrast_scale_surround'') (\<lambda>contrast_scale_surround.
       DiffOfGaussians_stimulus (dog_canvas_size s) (dog_pixel_boundaries s) (dog_grey_level s)
         location size' size_scale_surround contrast contrast_scale_surround)))))"

definition DiffOfGaussians_stimulus_from_idx :: "DiffOfGaussians \<Rightarrow> int \<Rightarrow> error + image" where
  "DiffOfGaussians_stimulus_from_idx s =
     stimulus_from_idx (params_from_idx (DiffOfGaussians_params s))
       (DiffOfGaussians_params s) (DiffOfGaussians_stimulus_kw s)"

record CenterSurround =
  cs_canvas_size :: "nat \<times> nat"
  cs_locations :: "(int \<times> int) list"
  cs_sizes_total :: "real list"
  cs_sizes_center :: "real list"
  cs_sizes_surround :: "real list"
  cs_contrasts_center :: "real list"
  cs_contrasts_surround :: "real list"
  cs_orientations_center :: "real list"
  cs_orientations_surround :: "real list"
  cs_spatial_frequencies :: "real list"
  cs_phases_center :: "real list"
  cs_phases_surround :: "real list"
  cs_grey_level :: real
  cs_pixel_boundaries :: "real \<times> real"
  cs_relative_sf :: bool

definition CenterSurround_params :: "CenterSurround \<Rightarrow> pval descriptor list" where
  "CenterSurround_params s =
     [(map Location (cs_locations s), ''location''),
      (map Number (cs_sizes_total s), ''size_total''),
      (map Number (cs_sizes_center s), ''size_center''),
      (map Number (cs_sizes_surround s), ''size_surround''),
      (map Number (cs_contrasts_center s), ''contrast_center''),
      (map Number (cs_contrasts_surround s), ''contrast_surround''),
      (map Number (cs_orientations_center s), ''orientation_center''),
      (map Number (cs_orientations_surround s), ''orientation_surround''),
      (map Number (cs_spatial_frequencies s), ''spatial_frequency''),
      (map Number (cs_phases_center s), ''phase_center''),
      (map Number (cs_phases_surround s), ''phase_surround'')]"

definition CenterSurround_names :: "string list" where
  "CenterSurround_names =
     [''location'', ''size_total'', ''size_center'', ''size_surround'', ''contrast_center'',
      ''contrast_surround'', ''orientation_center'', ''orientation_surround'',
      ''spatial_frequency'', ''phase_center'', ''phase_surround'']"

definition CenterSurround_stimulus_kw :: "CenterSurround \<Rightarrow> pval dict \<Rightarrow> error + image" where
  "CenterSurround_stimulus_kw s kwargs =
     (if \<not> list_all (\<lambda>name. name \<in> set CenterSurround_names) (map fst kwargs)
      then Inl TypeError
      else
     bind (kw_location kwargs ''location'') (\<lambda>location.
     bind (kw_number kwargs ''size_total'') (\<lambda>size_total.
     bind (kw_number kwargs ''size_center'') (\<lambda>size_center.
     bind (kw_number kwargs ''size_surround'') (\<lambda>size_surround.
     bind (kw_number kwargs ''contrast_center'') (\<lambda>contrast_center.
     bind (kw_number kwargs ''contrast_surround'') (\<lambda>contrast_surround.
     bind (kw_number kwargs ''orientation_center'') (\<lambda>orientation_center.
     bind (kw_number kwargs ''orientation_surround'') (\<lambda>orientation_surround.
     bind (kw_number kwargs ''spatial_frequency'') (\<lambda>spatial_frequency.
     bind (kw_number kwargs ''phase_center'') (\<lambda>phase_center.
     bind (kw_number kwargs ''phase_surround'') (\<lambda>phase_surround.
       CenterSurround_stimulus (cs_canvas_size s) (cs_pixel_boundaries s) (cs_grey_level s)
         location size_total size_center size_surround contrast_center contrast_surround
         orientation_center orientation_surround spatial_frequency
         phase_center phase_surround))))))))))))"

text \<open>\<^verbatim>\<open>CenterSurround\<close> derives from \<^verbatim>\<open>StimuliSet\<close> and overrides neither
  \<^verbatim>\<open>params_from_idx\<close> nor any caller of it: the field \<^verbatim>\<open>relative_sf\<close> is stored and never
  read.\<close>

definition CenterSurround_params_dict_from_idx :: "CenterSurround \<Rightarrow> int \<Rightarrow> error + pval dict" where
  "CenterSurround_params_dict_from_idx s =
     params_dict_from_idx (params_from_idx (CenterSurround_params s)) (CenterSurround_params s)"

definition CenterSurround_stimulus_from_idx :: "CenterSurround \<Rightarrow> int \<Rightarrow> error + image" where
  "CenterSurround_stimulus_from_idx s =
     stimulus_from_idx (params_from_idx (CenterSurround_params s))
       (CenterSurround_params s) (CenterSurround_stimulus_kw s)"

text \<open>The same for \<^verbatim>\<open>GaborSet\<close>, whose \<^verbatim>\<open>params_from_idx\<close> is its own.\<close>

definition GaborSet_params_dict_from_idx :: "GaborSet \<Rightarrow> int \<Rightarrow> error + pval dict" where
  "GaborSet_params_dict_from_idx s =
     params_dict_from_idx (GaborSet_params_from_idx (GaborSet_params s) (gab_relative_sf s))
       (GaborSet_params s)"

subsection \<open>Example instances\<close>

text \<open>
  Small instances on which the results below are evaluated.  The Center-Surround and the
  Gabor instance both configure a spatial frequency of 1 against a size of 2, with
  \<^verbatim>\<open>relative_sf\<close> set; the difference-of-Gaussians instance lists one surround scale
  that the method refuses and one that it accepts.
\<close>

definition center_surround_example :: CenterSurround where
  "center_surround_example =
     \<lparr>cs_canvas_size = (2, 1), cs_locations = [(0, 0)], cs_sizes_total = [2],
      cs_sizes_center = [1], cs_sizes_surround = [1], cs_contrasts_center = [1],
      cs_contrasts_surround = [1], cs_orientations_center = [0],
      cs_orientations_surround = [0], cs_spatial_frequencies = [1], cs_phases_center = [0],
      cs_phases_surround = [0], cs_grey_level = 0, cs_pixel_boundaries = (-1, 1),
      cs_relative_sf = True\<rparr>"

definition gabor_example :: GaborSet where
  "gabor_example =
     \<lparr>gab_canvas_size = (2, 1), gab_locations = [(0, 0)], gab_sizes = [2],
      gab_spatial_frequencies = [1], gab_contrasts = [1], gab_orientations = [0],
      gab_phases = [0], gab_gammas = [1], gab_grey_level = 0,
      gab_pixel_boundaries = (-1, 1), gab_relative_sf = True\<rparr>"

definition dog_example :: DiffOfGaussians where
  "dog_example =
     \<lparr>dog_canvas_size = (1, 1), dog_locations = [(0, 0)], dog_sizes = [1],
      dog_sizes_scale_surround = [1 / 2, 2], dog_contrasts = [1],
      dog_contrasts_scale_surround = [1 / 2], dog_grey_level = 0,
      dog_pixel_boundaries = (-1, 1)\<rparr>"


subsection \<open>Any synthesizer\<close>






subsection \<open>The mixed-radix reading of an index\<close>



section \<open>Basic facts\<close>


lemma bind_Inr: "bind (Inr x) f = f x"
  by (simp add: bind_def)

lemmas run_simps = bind_def num_params_def unravel_index_def select_params_def
  params_from_idx_def GaborSet_params_from_idx_def params_dict_from_idx_def
  stimulus_from_idx_def lookup_def kw_number_def kw_location_def

lemma upt_2: "[0..<2] = [0, 1]"
  by (simp add: upt_rec)

lemma length_meshgrid: "length (meshgrid cs loc) = snd cs"
  by (simp add: meshgrid_def)

lemma length_meshgrid_row: "i < snd cs \<Longrightarrow> length (meshgrid cs loc ! i) = fst cs"
  by (simp add: meshgrid_def)

lemma meshgrid_nth:
  "i < snd cs \<Longrightarrow> j < fst cs \<Longrightarrow>
   meshgrid cs loc ! i ! j = (of_int (int j - fst loc), of_int (int i - snd loc))"
  by (simp add: meshgrid_def)

lemma has_shape_map_meshgrid: "has_shape (map (map f) (meshgrid cs loc)) (snd cs, fst cs)"
  by (simp add: has_shape_def meshgrid_def list_all_iff)

lemma concat_meshgrid_nonempty:
  "0 < fst cs \<Longrightarrow> 0 < snd cs \<Longrightarrow> concat (map (map f) (meshgrid cs loc)) \<noteq> []"
  by (auto simp: meshgrid_def)

lemma GaborSet_stimulus_nth:
  "i < snd cs \<Longrightarrow> j < fst cs \<Longrightarrow>
   GaborSet_stimulus cs pb grey loc sz sf contrast orientation phase gamma ! i ! j
   = amplitude pb grey contrast
       * gabor_no_contrast sz sf phase gamma (rotate orientation (meshgrid cs loc ! i ! j))
     + grey"
  by (simp add: GaborSet_stimulus_def length_meshgrid length_meshgrid_row)

lemma PlaidsSet_stimulus_nth:
  "i < snd cs \<Longrightarrow> j < fst cs \<Longrightarrow>
   PlaidsSet_stimulus cs pb grey loc sz sf orientation phase gamma cp co ! i ! j
   = GaborSet_stimulus cs pb grey loc sz sf cp orientation phase gamma ! i ! j
     + GaborSet_stimulus cs pb grey loc sz sf co (orientation + pi / 2) phase gamma ! i ! j"
  by (simp add: PlaidsSet_stimulus_def add_images_def GaborSet_stimulus_def
      length_meshgrid length_meshgrid_row)

section \<open>Out-of-range indices\<close>







section \<open>Relative spatial frequency\<close>

text \<open>
  C1.  The Center-Surround synthesizer does not divide the spatial frequency by the size.
  It resolves an index with the base \<open>params_from_idx\<close> and never reads its
  \<^verbatim>\<open>relative_sf\<close> field.  On the example instance, with \<^verbatim>\<open>relative_sf\<close> set, a total size of
  2 and a configured frequency of 1, the resolved frequency is 1 and the stimulus is
  \<open>[[1, 1]]\<close>; a frequency of \<open>1/2\<close>, which is what scaling by the size gives and what
  the Gabor synthesizer resolves from the same configuration, would give \<open>[[1, -1]]\<close>.
\<close>

theorem center_surround_ignores_relative_sf:
  "cs_relative_sf center_surround_example
   \<and> (\<exists>d. CenterSurround_params_dict_from_idx center_surround_example 0 = Inr d
          \<and> lookup d ''size_total'' = Some (Number 2)
          \<and> lookup d ''spatial_frequency'' = Some (Number 1))
   \<and> CenterSurround_stimulus_from_idx center_surround_example 0 = Inr [[1, 1]]
   \<and> CenterSurround_stimulus (2, 1) (-1, 1) 0 (0, 0) 2 1 1 1 1 0 0 (1 / 2) 0 0
       = Inr [[1, -1]]
   \<and> gab_relative_sf gabor_example
   \<and> (\<exists>d. GaborSet_params_dict_from_idx gabor_example 0 = Inr d
          \<and> lookup d ''size'' = Some (Number 2)
          \<and> lookup d ''spatial_frequency'' = Some (Number (1 / 2)))"
proof -
  have 1: "\<exists>d. CenterSurround_params_dict_from_idx center_surround_example 0 = Inr d
          \<and> lookup d ''size_total'' = Some (Number 2)
          \<and> lookup d ''spatial_frequency'' = Some (Number 1)"
    by (simp add: center_surround_example_def CenterSurround_params_def
        CenterSurround_params_dict_from_idx_def run_simps)
  have 2: "CenterSurround_stimulus_from_idx center_surround_example 0 = Inr [[1, 1]]"
    by (simp add: center_surround_example_def CenterSurround_params_def
        CenterSurround_stimulus_from_idx_def CenterSurround_stimulus_kw_def
        CenterSurround_names_def CenterSurround_stimulus_def CenterSurround_pixel_def
        meshgrid_def rotate_def grating_def amplitude_def envelope_center_def
        envelope_surround_def norm_xy_def run_simps upt_2)
  have 3: "CenterSurround_stimulus (2, 1) (-1, 1) 0 (0, 0) 2 1 1 1 1 0 0 (1 / 2) 0 0
       = Inr [[1, -1]]"
    by (simp add: CenterSurround_stimulus_def CenterSurround_pixel_def
        meshgrid_def rotate_def grating_def amplitude_def envelope_center_def
        envelope_surround_def norm_xy_def upt_2)
  have 4: "\<exists>d. GaborSet_params_dict_from_idx gabor_example 0 = Inr d
          \<and> lookup d ''size'' = Some (Number 2)
          \<and> lookup d ''spatial_frequency'' = Some (Number (1 / 2))"
    by (simp add: gabor_example_def GaborSet_params_def GaborSet_params_dict_from_idx_def
        run_simps)
  have 5: "cs_relative_sf center_surround_example" "gab_relative_sf gabor_example"
    by (simp_all add: center_surround_example_def gabor_example_def)
  from 1 2 3 4 5 show ?thesis by blast
qed

section \<open>The Gabor stimulus stays within the pixel boundaries\<close>

lemma envelope_le_one:
  assumes "0 \<le> gamma" shows "envelope sz gamma xy \<le> 1"
proof -
  have "0 \<le> gamma * (snd xy)\<^sup>2" using assms by simp
  then have q: "0 \<le> (fst xy)\<^sup>2 + gamma * (snd xy)\<^sup>2" by (simp add: add_nonneg_nonneg)
  have d: "0 \<le> 2 * (sz / 4)\<^sup>2" by simp
  have "((fst xy)\<^sup>2 + gamma * (snd xy)\<^sup>2) / (2 * (sz / 4)\<^sup>2) \<ge> 0"
    using q d by (rule divide_nonneg_nonneg)
  then have "- ((fst xy)\<^sup>2 + gamma * (snd xy)\<^sup>2) / (2 * (sz / 4)\<^sup>2) \<le> 0"
    by (simp only: minus_divide_left neg_le_0_iff_le)
  then show ?thesis unfolding envelope_def by (simp only: exp_le_one_iff)
qed

lemma envelope_pos: "0 < envelope sz gamma xy"
  by (simp add: envelope_def)

lemma gabor_no_contrast_bound:
  assumes "0 \<le> gamma" shows "\<bar>gabor_no_contrast sz sf phase gamma xy\<bar> \<le> 1"
proof -
  have "\<bar>envelope sz gamma xy\<bar> \<le> 1"
    using envelope_le_one[OF assms] envelope_pos[of sz gamma xy] by simp
  moreover have "\<bar>grating sf phase xy\<bar> \<le> 1" by (simp add: grating_def)
  ultimately have "\<bar>envelope sz gamma xy\<bar> * \<bar>grating sf phase xy\<bar> \<le> 1 * 1"
    by (intro mult_mono) simp_all
  then show ?thesis by (simp add: gabor_no_contrast_def abs_mult)
qed

lemma amplitude_bound:
  assumes "low \<le> grey" "grey \<le> high" "0 \<le> contrast" "contrast \<le> 1" "\<bar>g\<bar> \<le> 1"
  shows "low \<le> amplitude (low, high) grey contrast * g + grey"
    and "amplitude (low, high) grey contrast * g + grey \<le> high"
proof -
  let ?m = "min \<bar>low - grey\<bar> \<bar>high - grey\<bar>"
  let ?a = "amplitude (low, high) grey contrast"
  have m0: "0 \<le> ?m" by simp
  have "contrast * ?m \<le> 1 * ?m" using assms(4) m0 by (rule mult_right_mono)
  then have a: "?a \<le> ?m" by (simp add: amplitude_def)
  have a0: "0 \<le> ?a" using assms(3) m0 by (simp add: amplitude_def)
  have "\<bar>?a * g\<bar> \<le> ?a * 1"
    unfolding abs_mult using a0 assms(5) by (intro mult_mono) simp_all
  then have b: "\<bar>?a * g\<bar> \<le> ?m" using a by simp
  show "low \<le> ?a * g + grey" using b assms(1,2) by linarith
  show "?a * g + grey \<le> high" using b assms(1,2) by linarith
qed

text \<open>
  C3, as amended.  When the grey level lies within the pixel boundaries, the contrast lies
  in \<open>[0, 1]\<close>, \<open>gamma\<close> is not negative and the size is not zero, every pixel of the Gabor
  stimulus lies within the pixel boundaries; the product of envelope and grating does not
  exceed 1 in magnitude, and so neither does any pixel for a contrast of 1, a grey level of
  0 and the boundaries \<open>(-1, 1)\<close>.  (A size of zero makes the code divide by zero, which the
  real numbers do not model.)
\<close>

theorem gabor_within_pixel_boundaries:
  "fst pixel_boundaries \<le> grey_level \<Longrightarrow> grey_level \<le> snd pixel_boundaries \<Longrightarrow>
   0 \<le> contrast \<Longrightarrow> contrast \<le> 1 \<Longrightarrow> 0 \<le> gamma \<Longrightarrow> size' \<noteq> 0 \<Longrightarrow>
   i < snd canvas_size \<Longrightarrow> j < fst canvas_size \<Longrightarrow>
   fst pixel_boundaries
     \<le> GaborSet_stimulus canvas_size pixel_boundaries grey_level
         location size' spatial_frequency contrast orientation phase gamma ! i ! j
   \<and> GaborSet_stimulus canvas_size pixel_boundaries grey_level
         location size' spatial_frequency contrast orientation phase gamma ! i ! j
     \<le> snd pixel_boundaries
   \<and> \<bar>gabor_no_contrast size' spatial_frequency phase gamma
        (rotate orientation (meshgrid canvas_size location ! i ! j))\<bar> \<le> 1
   \<and> \<bar>GaborSet_stimulus canvas_size (-1, 1) 0
        location size' spatial_frequency 1 orientation phase gamma ! i ! j\<bar> \<le> 1"
proof -
  assume h: "fst pixel_boundaries \<le> grey_level" "grey_level \<le> snd pixel_boundaries"
    "0 \<le> contrast" "contrast \<le> 1" "0 \<le> gamma" "i < snd canvas_size" "j < fst canvas_size"
  let ?g = "gabor_no_contrast size' spatial_frequency phase gamma
        (rotate orientation (meshgrid canvas_size location ! i ! j))"
  have g: "\<bar>?g\<bar> \<le> 1" using h(5) by (rule gabor_no_contrast_bound)
  obtain low high where pb: "pixel_boundaries = (low, high)" by (cases pixel_boundaries)
  have 1: "low \<le> amplitude (low, high) grey_level contrast * ?g + grey_level"
    and 2: "amplitude (low, high) grey_level contrast * ?g + grey_level \<le> high"
    using amplitude_bound[of low grey_level high contrast ?g] h g pb by simp_all
  have 3: "\<bar>GaborSet_stimulus canvas_size (-1, 1) 0
        location size' spatial_frequency 1 orientation phase gamma ! i ! j\<bar> \<le> 1"
    using g h(6,7) by (simp add: GaborSet_stimulus_nth amplitude_def)
  show ?thesis using 1 2 3 g h(6,7) by (simp add: GaborSet_stimulus_nth pb)
qed

theorem gabor_within_pixel_boundaries_witness:
  "- 1 \<le> GaborSet_stimulus (2, 1) (-1, 1) (1 / 4) (0, 0) 4 1 1 0 0 1 ! 0 ! 1
   \<and> GaborSet_stimulus (2, 1) (-1, 1) (1 / 4) (0, 0) 4 1 1 0 0 1 ! 0 ! 1 \<le> 1"
  using gabor_within_pixel_boundaries [of "(-1, 1)" "1 / 4" 1 1 4 0 "(2, 1)" 1 "(0, 0)" 1 0 0]
  by simp

text \<open>
  Without those conditions the bound fails.  With a grey level of 2 outside the
  boundaries \<open>(-1, 1)\<close> and a contrast of 0, the pixel is 2.  With \<open>gamma = -2\<close>, a contrast
  of 1, a grey level of 0 and the boundaries \<open>(-1, 1)\<close>, the pixel one row below the
  location is \<open>exp 1\<close>, and so is the product of envelope and grating.
\<close>

theorem gabor_within_pixel_boundaries_counterexample:
  "\<not> GaborSet_stimulus (1, 1) (-1, 1) 2 (0, 0) 4 1 0 0 0 1 ! 0 ! 0 \<le> 1
   \<and> \<not> GaborSet_stimulus (1, 2) (-1, 1) 0 (0, 0) 4 0 1 0 0 (-2) ! 1 ! 0 \<le> 1
   \<and> \<not> \<bar>gabor_no_contrast 4 0 0 (-2) (rotate 0 (meshgrid (1, 2) (0, 0) ! 1 ! 0))\<bar> \<le> 1"
  by (simp add: GaborSet_stimulus_nth meshgrid_nth rotate_def amplitude_def
      gabor_no_contrast_def envelope_def grating_def)

section \<open>The plaid\<close>

text \<open>
  C5.  The Plaid stimulus is the pixel-wise sum of two Gabor stimuli computed independently
  from the same location, size, spatial frequency, phase and gamma: the method's result
  and the specification's reading of it are the same array.
\<close>

theorem plaid_is_sum_of_two_gabors:
  "PlaidsSet_stimulus canvas_size pixel_boundaries grey_level
       location size' spatial_frequency orientation phase gamma
       contrast_preferred contrast_orthogonal
   = plaid_spec canvas_size pixel_boundaries grey_level
       location size' spatial_frequency orientation phase gamma
       contrast_preferred contrast_orthogonal"
  unfolding PlaidsSet_stimulus_def plaid_spec_def Let_def add_images_def GaborSet_stimulus_def
  by (auto intro!: nth_equalityI simp: length_meshgrid length_meshgrid_row)

text \<open>
  C10.  Each of the two Gabor stimuli adds the grey level, so every pixel of the Plaid
  stimulus is the sum of the two amplitude-scaled products of envelope and grating plus
  twice the grey level.  With both contrasts 0 every pixel is twice the grey level, which
  differs from the grey level unless that is 0.
\<close>

theorem plaid_adds_grey_level_twice:
  "i < snd canvas_size \<Longrightarrow> j < fst canvas_size \<Longrightarrow>
   PlaidsSet_stimulus canvas_size pixel_boundaries grey_level
       location size' spatial_frequency orientation phase gamma
       contrast_preferred contrast_orthogonal ! i ! j
     = amplitude pixel_boundaries grey_level contrast_preferred
         * gabor_no_contrast size' spatial_frequency phase gamma
             (rotate orientation (meshgrid canvas_size location ! i ! j))
       + amplitude pixel_boundaries grey_level contrast_orthogonal
         * gabor_no_contrast size' spatial_frequency phase gamma
             (rotate (orientation + pi / 2) (meshgrid canvas_size location ! i ! j))
       + 2 * grey_level
   \<and> PlaidsSet_stimulus canvas_size pixel_boundaries grey_level
       location size' spatial_frequency orientation phase gamma 0 0 ! i ! j
     = 2 * grey_level
   \<and> (grey_level \<noteq> 0 \<longrightarrow>
       PlaidsSet_stimulus canvas_size pixel_boundaries grey_level
         location size' spatial_frequency orientation phase gamma 0 0 ! i ! j
       \<noteq> grey_level)"
  by (simp add: PlaidsSet_stimulus_nth GaborSet_stimulus_nth amplitude_def)

theorem plaid_adds_grey_level_twice_witness:
  "PlaidsSet_stimulus (2, 1) (-1, 1) (1 / 4) (0, 0) 4 1 0 0 1 0 0 ! 0 ! 1 = 1 / 2
   \<and> PlaidsSet_stimulus (2, 1) (-1, 1) (1 / 4) (0, 0) 4 1 0 0 1 0 0 ! 0 ! 1 \<noteq> 1 / 4"
  using plaid_adds_grey_level_twice [of 0 "(2, 1)" 1 "(-1, 1)" "1 / 4" "(0, 0)" 4 1 0 0 1 0 0]
  by simp

section \<open>Center-Surround: the masks and the background\<close>






lemma CenterSurround_stimulus_nth:
  "size_center \<le> size_surround \<Longrightarrow> i < snd cs \<Longrightarrow> j < fst cs \<Longrightarrow>
   \<exists>img. CenterSurround_stimulus cs pb grey loc size_total size_center size_surround
            cc csr oc os sf pc ps = Inr img
     \<and> has_shape img (snd cs, fst cs)
     \<and> img ! i ! j = CenterSurround_pixel pb grey size_total size_center size_surround
                       cc csr oc os sf pc ps (meshgrid cs loc ! i ! j)"
  by (simp add: CenterSurround_stimulus_def length_meshgrid length_meshgrid_row
      has_shape_map_meshgrid)

text \<open>
  C4.  For \<open>size_center \<le> size_surround\<close> the method returns an array whose every pixel is
  the center mask times the center grating plus the surround mask times the surround
  grating, each grating scaled by its amplitude, with no grey-level term; a pixel outside
  both masks is exactly 0.
\<close>

theorem center_surround_zero_outside_masks:
  "size_center \<le> size_surround \<Longrightarrow> i < snd canvas_size \<Longrightarrow> j < fst canvas_size \<Longrightarrow>
   \<exists>img. CenterSurround_stimulus canvas_size pixel_boundaries grey_level
            location size_total size_center size_surround contrast_center contrast_surround
            orientation_center orientation_surround spatial_frequency
            phase_center phase_surround = Inr img
     \<and> img ! i ! j
       = of_bool (envelope_center size_total size_center orientation_center
                    (meshgrid canvas_size location ! i ! j))
           * (amplitude pixel_boundaries grey_level contrast_center
              * grating spatial_frequency phase_center
                  (rotate orientation_center (meshgrid canvas_size location ! i ! j)))
         + of_bool (envelope_surround size_total size_surround orientation_surround
                      (meshgrid canvas_size location ! i ! j))
           * (amplitude pixel_boundaries grey_level contrast_surround
              * grating spatial_frequency phase_surround
                  (rotate orientation_surround (meshgrid canvas_size location ! i ! j)))
     \<and> (\<not> envelope_center size_total size_center orientation_center
              (meshgrid canvas_size location ! i ! j)
        \<and> \<not> envelope_surround size_total size_surround orientation_surround
              (meshgrid canvas_size location ! i ! j)
        \<longrightarrow> img ! i ! j = 0)"
  using CenterSurround_stimulus_nth[of size_center size_surround i canvas_size j
      pixel_boundaries grey_level location size_total contrast_center contrast_surround
      orientation_center orientation_surround spatial_frequency phase_center phase_surround]
  by (auto simp: CenterSurround_pixel_def Let_def)

theorem center_surround_zero_outside_masks_witness:
  "\<exists>img. CenterSurround_stimulus (3, 1) (-1, 1) (1 / 4) (0, 0) 1 (1 / 2) (1 / 2) 1 1 0 0 1 0 0
            = Inr img
     \<and> img ! 0 ! 2 = 0 \<and> img ! 0 ! 2 \<noteq> 1 / 4"
  using center_surround_zero_outside_masks
    [of "1 / 2" "1 / 2" 0 "(3, 1)" 2 "(-1, 1)" "1 / 4" "(0, 0)" 1 1 1 0 0 1 0 0]
  by (auto simp: meshgrid_nth envelope_center_def envelope_surround_def norm_xy_def rotate_def)

section \<open>Domain validation\<close>

lemma DoG_too_small_iff:
  "DiffOfGaussians_stimulus cs pb grey loc sz sss c css = Inl SizeSurroundTooSmall
   \<longleftrightarrow> sss \<le> 1"
  by (simp add: DiffOfGaussians_stimulus_def Let_def)

lemma DoG_succeeds:
  "0 < fst cs \<Longrightarrow> 0 < snd cs \<Longrightarrow> 1 < sss \<Longrightarrow>
     \<exists>img. DiffOfGaussians_stimulus cs pb grey loc sz sss c css = Inr img"
  using concat_meshgrid_nonempty[of cs _ "(0, 0)"]
  by (simp add: DiffOfGaussians_stimulus_def Let_def del: concat_eq_Nil_conv)

lemma dog_example_stimuli:
  "DiffOfGaussians_stimulus_from_idx dog_example 0 = Inl SizeSurroundTooSmall"
  "DiffOfGaussians_stimulus_from_idx dog_example 1 = Inr [[1]]"
  by (simp_all add: dog_example_def DiffOfGaussians_params_def
      DiffOfGaussians_stimulus_from_idx_def DiffOfGaussians_stimulus_kw_def
      DiffOfGaussians_stimulus_def gaussian_density_def meshgrid_def amplitude_def
      run_simps)

text \<open>
  C7.  \<open>DiffOfGaussians_stimulus\<close> ends in its validation error exactly when
  \<open>size_scale_surround \<le> 1\<close>, and \<open>CenterSurround_stimulus\<close> in its validation error exactly
  when \<open>size_center > size_surround\<close>; both tests come first, so the outcome depends on no
  other argument.  On a canvas with at least one pixel the difference of Gaussians raises
  nothing else, and a surround scale of 2 succeeds; the Center-Surround method raises
  nothing else on any canvas.
\<close>

theorem domain_validation:
  "(DiffOfGaussians_stimulus canvas_size pixel_boundaries grey_level
        location size' size_scale_surround contrast contrast_scale_surround
      = Inl SizeSurroundTooSmall
    \<longleftrightarrow> size_scale_surround \<le> 1)
   \<and> (0 < fst canvas_size \<and> 0 < snd canvas_size \<longrightarrow>
        (isl (DiffOfGaussians_stimulus canvas_size pixel_boundaries grey_level
                location size' size_scale_surround contrast contrast_scale_surround)
         \<longleftrightarrow> size_scale_surround \<le> 1)
        \<and> (\<exists>img. DiffOfGaussians_stimulus canvas_size pixel_boundaries grey_level
                    location size' 2 contrast contrast_scale_surround = Inr img))
   \<and> (CenterSurround_stimulus canvas_size pixel_boundaries grey_level
         location size_total size_center size_surround contrast_center contrast_surround
         orientation_center orientation_surround spatial_frequency phase_center phase_surround
       = Inl SizeCenterTooLarge
      \<longleftrightarrow> size_center > size_surround)
   \<and> (isl (CenterSurround_stimulus canvas_size pixel_boundaries grey_level
         location size_total size_center size_surround contrast_center contrast_surround
         orientation_center orientation_surround spatial_frequency phase_center phase_surround)
      \<longleftrightarrow> size_center > size_surround)"
proof (intro conjI impI)
  show "DiffOfGaussians_stimulus canvas_size pixel_boundaries grey_level
        location size' size_scale_surround contrast contrast_scale_surround
      = Inl SizeSurroundTooSmall \<longleftrightarrow> size_scale_surround \<le> 1"
    by (rule DoG_too_small_iff)
next
  assume c: "0 < fst canvas_size \<and> 0 < snd canvas_size"
  show "isl (DiffOfGaussians_stimulus canvas_size pixel_boundaries grey_level
                location size' size_scale_surround contrast contrast_scale_surround)
         \<longleftrightarrow> size_scale_surround \<le> 1"
  proof (cases "size_scale_surround \<le> 1")
    case True
    then show ?thesis by (simp add: DiffOfGaussians_stimulus_def)
  next
    case False
    then have "1 < size_scale_surround" by simp
    from DoG_succeeds[OF _ _ this, of canvas_size pixel_boundaries grey_level location size'
        contrast contrast_scale_surround] c False
    show ?thesis by auto
  qed
next
  assume c: "0 < fst canvas_size \<and> 0 < snd canvas_size"
  then show "\<exists>img. DiffOfGaussians_stimulus canvas_size pixel_boundaries grey_level
                    location size' 2 contrast contrast_scale_surround = Inr img"
    using DoG_succeeds[of canvas_size 2] by simp
qed (simp_all add: CenterSurround_stimulus_def)

theorem domain_validation_witness:
  "DiffOfGaussians_stimulus (1, 1) (-1, 1) 0 (0, 0) 1 (1 / 2) 1 (1 / 2)
     = Inl SizeSurroundTooSmall
   \<and> \<not> isl (DiffOfGaussians_stimulus (1, 1) (-1, 1) 0 (0, 0) 1 2 1 (1 / 2))
   \<and> (\<exists>img. DiffOfGaussians_stimulus (1, 1) (-1, 1) 0 (0, 0) 1 2 1 (1 / 2) = Inr img)
   \<and> CenterSurround_stimulus (1, 1) (-1, 1) 0 (0, 0) 1 (4 / 5) (1 / 2) 1 1 0 0 1 0 0
     = Inl SizeCenterTooLarge
   \<and> \<not> isl (CenterSurround_stimulus (1, 1) (-1, 1) 0 (0, 0) 1 (1 / 2) (1 / 2) 1 1 0 0 1 0 0)
   \<and> DiffOfGaussians_stimulus_from_idx dog_example 0 = Inl SizeSurroundTooSmall
   \<and> DiffOfGaussians_stimulus_from_idx dog_example 1 = Inr [[1]]"
  using
    domain_validation [of "(1, 1)" "(-1, 1)" 0 "(0, 0)" 1 "1 / 2" 1 "1 / 2"
      1 "4 / 5" "1 / 2" 1 1 0 0 1 0 0]
    domain_validation [of "(1, 1)" "(-1, 1)" 0 "(0, 0)" 1 2 1 "1 / 2"
      1 "1 / 2" "1 / 2" 1 1 0 0 1 0 0]
  by (simp add: dog_example_stimuli)

section \<open>The index-to-assignment map\<close>



























section \<open>Batches\<close>

























end
